theory Spec2Isabelle
  imports Complex_Main "HOL-Library.Multiset" "HOL-Library.Word"
begin

section \<open>The decoded payloads (main.go, lines 30-61)\<close>

text \<open>
  Every numeric field of the payload structs is a Go \<^verbatim>\<open>float64\<close> filled by
  \<^verbatim>\<open>json.Unmarshal\<close>. The program does nothing with these fields but compare them with
  the constants 0, 1, 2 and 3 and pass \<^verbatim>\<open>Running\<close> on unchanged, and a finite binary64
  value is a real number, so the fields are modelled as reals. (Should the decoder ever
  store a value that is not finite, every comparison with a constant is false for it, as
  for any real other than 0, 1, 2 and 3.) A field that is missing from the payload keeps
  Go's zero value 0. \<^verbatim>\<open>Recordcount\<close> is an \<^verbatim>\<open>int64\<close>.

  The two anonymous element structs share field names, as do the two list payloads;
  the selectors are therefore written qualified, \<open>Hoststatus_elem.CheckType\<close> and
  \<open>Servicestatus_elem.CheckType\<close>.
\<close>

type_synonym float64 = real
type_synonym int64 = "64 word"

record systemStatus =
  Running :: float64

record systemInfo =
  Version :: string

record Hoststatus_elem =
  HostObjectID :: float64
  CheckType :: float64
  CurrentState :: float64
  IsFlapping :: float64
  ScheduledDowntimeDepth :: float64

record hostStatus =
  Recordcount :: int64
  Hoststatus :: "Hoststatus_elem list"

record Servicestatus_elem =
  HasBeenChecked :: float64
  ShouldBeScheduled :: float64
  CheckType :: float64
  CurrentState :: float64
  IsFlapping :: float64
  ScheduledDowntimeDepth :: float64

record serviceStatus =
  Recordcount :: int64
  Servicestatus :: "Servicestatus_elem list"

section \<open>The aggregation loops of \<^verbatim>\<open>HitNagiosRestApisAndUpdateMetrics\<close>\<close>

text \<open>
  The local counters declared on line 360 and line 454 are Go \<^verbatim>\<open>int\<close>s that start at
  zero and are only ever incremented, at most once per element of a slice. A slice's
  length is itself an \<^verbatim>\<open>int\<close>, so no counter can wrap around, and they are modelled as
  natural numbers. The counters of one loop form a record that the loop body updates.
\<close>

record hostCounters =
  hostsCount :: nat
  hostsActiveCheckCount :: nat
  hostsPassiveCheckCount :: nat
  hostsUpCount :: nat
  hostsDownCount :: nat
  hostsUnreachableCount :: nat
  hostsFlapCount :: nat
  hostsDowntimeCount :: nat

record serviceCounters =
  servicesCount :: nat
  servicessCheckedCount :: nat
  servicesScheduledCount :: nat
  servicesActiveCheckCount :: nat
  servicesPassiveCheckCount :: nat
  servicesOkCount :: nat
  servicesWarnCount :: nat
  servicesCriticalCount :: nat
  servicesUnknownCount :: nat
  servicesFlapCount :: nat
  servicesDowntimeCount :: nat

text \<open>Line 360: \<^verbatim>\<open>var hostsCount, ... int\<close>, all zero.\<close>

definition hostsZero :: hostCounters where
  "hostsZero =
     \<lparr>hostsCount = 0, hostsActiveCheckCount = 0, hostsPassiveCheckCount = 0,
      hostsUpCount = 0, hostsDownCount = 0, hostsUnreachableCount = 0,
      hostsFlapCount = 0, hostsDowntimeCount = 0\<rparr>"

text \<open>
  Lines 364-389, the body of the loop over \<^verbatim>\<open>hostStatusObject.Hoststatus\<close>, statement by
  statement. A Go \<^verbatim>\<open>switch\<close> takes the first matching case and has no fall-through; with
  no \<^verbatim>\<open>default\<close> a value that matches no case changes nothing.
\<close>

definition hostsBody :: "Hoststatus_elem \<Rightarrow> hostCounters \<Rightarrow> hostCounters" where
  "hostsBody v c0 =
     (let c1 = c0\<lparr>hostsCount := hostsCount c0 + 1\<rparr>;
          c2 = (if Hoststatus_elem.CheckType v = 0
                then c1\<lparr>hostsActiveCheckCount := hostsActiveCheckCount c1 + 1\<rparr>
                else c1\<lparr>hostsPassiveCheckCount := hostsPassiveCheckCount c1 + 1\<rparr>);
          c3 = (if Hoststatus_elem.CurrentState v = 0
                then c2\<lparr>hostsUpCount := hostsUpCount c2 + 1\<rparr>
                else if Hoststatus_elem.CurrentState v = 1
                then c2\<lparr>hostsDownCount := hostsDownCount c2 + 1\<rparr>
                else if Hoststatus_elem.CurrentState v = 2
                then c2\<lparr>hostsUnreachableCount := hostsUnreachableCount c2 + 1\<rparr>
                else c2);
          c4 = (if Hoststatus_elem.IsFlapping v = 1
                then c3\<lparr>hostsFlapCount := hostsFlapCount c3 + 1\<rparr>
                else c3);
          c5 = (if Hoststatus_elem.ScheduledDowntimeDepth v = 1
                then c4\<lparr>hostsDowntimeCount := hostsDowntimeCount c4 + 1\<rparr>
                else c4)
      in c5)"

text \<open>Line 363: \<^verbatim>\<open>for _, v := range hostStatusObject.Hoststatus\<close>, in slice order.\<close>

definition hostsLoop :: "Hoststatus_elem list \<Rightarrow> hostCounters" where
  "hostsLoop vs = fold hostsBody vs hostsZero"

text \<open>Line 454: the service counters, all zero.\<close>

definition servicesZero :: serviceCounters where
  "servicesZero =
     \<lparr>servicesCount = 0, servicessCheckedCount = 0, servicesScheduledCount = 0,
      servicesActiveCheckCount = 0, servicesPassiveCheckCount = 0,
      servicesOkCount = 0, servicesWarnCount = 0, servicesCriticalCount = 0,
      servicesUnknownCount = 0, servicesFlapCount = 0, servicesDowntimeCount = 0\<rparr>"

text \<open>Lines 458-494, the body of the loop over \<^verbatim>\<open>serviceStatusObject.Servicestatus\<close>.\<close>

definition servicesBody :: "Servicestatus_elem \<Rightarrow> serviceCounters \<Rightarrow> serviceCounters" where
  "servicesBody v c0 =
     (let c1 = c0\<lparr>servicesCount := servicesCount c0 + 1\<rparr>;
          c2 = (if HasBeenChecked v = 0
                then c1\<lparr>servicessCheckedCount := servicessCheckedCount c1 + 1\<rparr>
                else c1);
          c3 = (if ShouldBeScheduled v = 0
                then c2\<lparr>servicesScheduledCount := servicesScheduledCount c2 + 1\<rparr>
                else c2);
          c4 = (if Servicestatus_elem.CheckType v = 0
                then c3\<lparr>servicesActiveCheckCount := servicesActiveCheckCount c3 + 1\<rparr>
                else c3\<lparr>servicesPassiveCheckCount := servicesPassiveCheckCount c3 + 1\<rparr>);
          c5 = (if Servicestatus_elem.CurrentState v = 0
                then c4\<lparr>servicesOkCount := servicesOkCount c4 + 1\<rparr>
                else if Servicestatus_elem.CurrentState v = 1
                then c4\<lparr>servicesWarnCount := servicesWarnCount c4 + 1\<rparr>
                else if Servicestatus_elem.CurrentState v = 2
                then c4\<lparr>servicesCriticalCount := servicesCriticalCount c4 + 1\<rparr>
                else if Servicestatus_elem.CurrentState v = 3
                then c4\<lparr>servicesUnknownCount := servicesUnknownCount c4 + 1\<rparr>
                else c4);
          c6 = (if Servicestatus_elem.IsFlapping v = 1
                then c5\<lparr>servicesFlapCount := servicesFlapCount c5 + 1\<rparr>
                else c5);
          c7 = (if Servicestatus_elem.ScheduledDowntimeDepth v = 1
                then c6\<lparr>servicesDowntimeCount := servicesDowntimeCount c6 + 1\<rparr>
                else c6)
      in c7)"

definition servicesLoop :: "Servicestatus_elem list \<Rightarrow> serviceCounters" where
  "servicesLoop vs = fold servicesBody vs servicesZero"

section \<open>Metrics and the channel\<close>

text \<open>The descriptors declared on lines 74-195, one constructor per variable.\<close>

datatype desc =
    up
  | hostsTotal
  | hostsActivelyCheckedTotal
  | hostsPassivelyCheckedTotal
  | hostsUp
  | hostsDown
  | hostsUnreachable
  | hostsFlapping
  | hostsDowntime
  | servicesTotal
  | servicesActivelyCheckedTotal
  | servicesPassivelyCheckedTotal
  | servicesOk
  | servicesWarn
  | servicesCritical
  | servicesUnknown
  | servicesFlapping
  | servicesDowntime
  | versionInfo

text \<open>
  The value of a metric is a \<^verbatim>\<open>float64\<close> that the program obtains in one of two ways:
  it is a value it already holds (the decoded \<^verbatim>\<open>Running\<close>, the literal 1), written
  \<open>F64 x\<close>, or it is the conversion \<^verbatim>\<open>float64(n)\<close> of an integer, written
  \<open>F64_of_int n\<close>. The conversion is kept symbolic: it is exact up to magnitude \<open>2^53\<close>
  and rounds beyond, and rounding is not modelled.

  Every metric is built by \<^verbatim>\<open>prometheus.MustNewConstMetric(desc, GaugeValue, value,
  labelValues...)\<close>; the value type is \<^verbatim>\<open>GaugeValue\<close> at every call and is left out. The
  call panics when the label values do not fit the descriptor, which no call in the
  program lets happen: \<^verbatim>\<open>versionInfo\<close> has one label and is given one value, a string
  that \<^verbatim>\<open>json.Unmarshal\<close> has decoded, and the other descriptors have no label and are
  given none.
\<close>

datatype number = F64 float64 | F64_of_int int

datatype metric = MustNewConstMetric desc number "string list"

text \<open>
  The channel \<^verbatim>\<open>ch\<close> of \<^verbatim>\<open>Collect\<close> is the list of the metrics sent on it so far, oldest
  first; \<^verbatim>\<open>ch <- m\<close> appends.
\<close>

type_synonym chan = "metric list"

definition send :: "metric \<Rightarrow> chan \<Rightarrow> chan" where
  "send m ch = ch @ [m]"

section \<open>The backend and the four requests\<close>

text \<open>
  What one request meets. \<^verbatim>\<open>http.NewRequest\<close> may reject the URL and
  \<^verbatim>\<open>http.DefaultClient.Do\<close> may fail (connection refused, DNS, timeout); otherwise there
  is a response with its status code and its body. Of the body the program sees only what
  \<^verbatim>\<open>ioutil.ReadAll\<close> and \<^verbatim>\<open>json.Unmarshal\<close> make of it: the read fails, the bytes are
  rejected by \<^verbatim>\<open>json.Unmarshal\<close> for the target struct, or they decode to a struct value.
  The decoder itself is Go's library and is not part of this development.
\<close>

datatype 'a body = ReadError | JsonError | Json 'a

datatype 'a reply = NewRequestError | DoError | Response int "'a body"

text \<open>
  The backend at the time of one scrape: the reply that a request for each of the four
  resources (the constants on lines 25-28) meets.
\<close>

record backend =
  systemstatusAPI :: "systemStatus reply"
  systeminfoAPI :: "systemInfo reply"
  hoststatusAPI :: "hostStatus reply"
  servicestatusAPI :: "serviceStatus reply"

text \<open>
  The two ways in which the program ends the process: \<^verbatim>\<open>os.Exit(1)\<close> after printing to
  standard error, and \<^verbatim>\<open>log.Fatal\<close>, which logs and then calls \<^verbatim>\<open>os.Exit(1)\<close>.
\<close>

datatype fatal = os_Exit int | log_Fatal

text \<open>
  The request block that the source writes out four times (lines 235-261, 289-318, 328-354
  and 421-448), identical but for the resource and the target struct: build the request,
  send it, read the body, decode it. The status code of the response is never read.
\<close>

definition fetch :: "'a reply \<Rightarrow> fatal + 'a" where
  "fetch r =
     (case r of
        NewRequestError \<Rightarrow> Inl (os_Exit 1)
      | DoError \<Rightarrow> Inl (os_Exit 1)
      | Response statusCode b \<Rightarrow>
          (case b of
             ReadError \<Rightarrow> Inl log_Fatal
           | JsonError \<Rightarrow> Inl log_Fatal
           | Json obj \<Rightarrow> Inr obj))"

section \<open>The collector\<close>

text \<open>
  A call either returns, with the channel as it then is, or ends the process, and then
  the metrics already sent are never served.
\<close>

datatype outcome = Return chan | Fatal fatal chan

fun sent :: "outcome \<Rightarrow> chan" where
  "sent (Return ch) = ch"
| "sent (Fatal f ch) = ch"

type_synonym error = string

text \<open>
  Lines 233-266. The \<^verbatim>\<open>err\<close> returned on line 265 is the one assigned on line 243, and
  the function has left the process on line 246 unless it is \<^verbatim>\<open>nil\<close>.
\<close>

definition TestNagiosConnectivity :: "backend \<Rightarrow> fatal + (float64 \<times> error option)" where
  "TestNagiosConnectivity b =
     (case fetch (systemstatusAPI b) of
        Inl f \<Rightarrow> Inl f
      | Inr systemStatusObject \<Rightarrow> Inr (Running systemStatusObject, None))"

text \<open>Lines 393-419: the seven host gauges, in the order they are sent.\<close>

definition emitHosts :: "hostCounters \<Rightarrow> chan \<Rightarrow> chan" where
  "emitHosts hc ch = ch @
     [MustNewConstMetric hostsActivelyCheckedTotal (F64_of_int (int (hostsActiveCheckCount hc))) [],
      MustNewConstMetric hostsPassivelyCheckedTotal (F64_of_int (int (hostsPassiveCheckCount hc))) [],
      MustNewConstMetric hostsUp (F64_of_int (int (hostsUpCount hc))) [],
      MustNewConstMetric hostsDown (F64_of_int (int (hostsDownCount hc))) [],
      MustNewConstMetric hostsUnreachable (F64_of_int (int (hostsUnreachableCount hc))) [],
      MustNewConstMetric hostsFlapping (F64_of_int (int (hostsFlapCount hc))) [],
      MustNewConstMetric hostsDowntime (F64_of_int (int (hostsDowntimeCount hc))) []]"

text \<open>
  Lines 497-527: the eight service gauges. Line 502 reads \<^verbatim>\<open>hostsPassiveCheckCount\<close> and
  line 514 reads \<^verbatim>\<open>servicesWarnCount\<close>; the host counters are still in scope, being
  locals of the same function.
\<close>

definition emitServices :: "hostCounters \<Rightarrow> serviceCounters \<Rightarrow> chan \<Rightarrow> chan" where
  "emitServices hc sc ch = ch @
     [MustNewConstMetric servicesActivelyCheckedTotal (F64_of_int (int (servicesActiveCheckCount sc))) [],
      MustNewConstMetric servicesPassivelyCheckedTotal (F64_of_int (int (hostsPassiveCheckCount hc))) [],
      MustNewConstMetric servicesOk (F64_of_int (int (servicesOkCount sc))) [],
      MustNewConstMetric servicesWarn (F64_of_int (int (servicesWarnCount sc))) [],
      MustNewConstMetric servicesCritical (F64_of_int (int (servicesWarnCount sc))) [],
      MustNewConstMetric servicesUnknown (F64_of_int (int (servicesUnknownCount sc))) [],
      MustNewConstMetric servicesFlapping (F64_of_int (int (servicesFlapCount sc))) [],
      MustNewConstMetric servicesDowntime (F64_of_int (int (servicesDowntimeCount sc))) []]"

text \<open>Lines 286-531.\<close>

definition HitNagiosRestApisAndUpdateMetrics :: "backend \<Rightarrow> chan \<Rightarrow> outcome" where
  "HitNagiosRestApisAndUpdateMetrics b ch =
     (case fetch (systeminfoAPI b) of
        Inl f \<Rightarrow> Fatal f ch
      | Inr systemInfoObject \<Rightarrow>
          (let ch1 = send (MustNewConstMetric versionInfo (F64 1) [Version systemInfoObject]) ch
           in case fetch (hoststatusAPI b) of
                Inl f \<Rightarrow> Fatal f ch1
              | Inr hostStatusObject \<Rightarrow>
                  (let ch2 = send (MustNewConstMetric hostsTotal
                               (F64_of_int (sint (hostStatus.Recordcount hostStatusObject))) []) ch1;
                       hc = hostsLoop (Hoststatus hostStatusObject);
                       ch3 = emitHosts hc ch2
                   in case fetch (servicestatusAPI b) of
                        Inl f \<Rightarrow> Fatal f ch3
                      | Inr serviceStatusObject \<Rightarrow>
                          (let ch4 = send (MustNewConstMetric servicesTotal
                                       (F64_of_int (sint (serviceStatus.Recordcount serviceStatusObject))) []) ch3;
                               sc = servicesLoop (Servicestatus serviceStatusObject)
                           in Return (emitServices hc sc ch4)))))"

text \<open>
  Lines 268-284, the method \<^verbatim>\<open>Collect\<close> of \<^verbatim>\<open>Exporter\<close>; the name carries the receiver
  because \<open>Collect\<close> is the set comprehension of HOL.
\<close>

definition Collect_Exporter :: "backend \<Rightarrow> chan \<Rightarrow> outcome" where
  "Collect_Exporter b ch =
     (case TestNagiosConnectivity b of
        Inl f \<Rightarrow> Fatal f ch
      | Inr (nagiosStatus, err) \<Rightarrow>
          (case err of
             Some e \<Rightarrow> Return (send (MustNewConstMetric up (F64 nagiosStatus) []) ch)
           | None \<Rightarrow>
               HitNagiosRestApisAndUpdateMetrics b
                 (send (MustNewConstMetric up (F64 nagiosStatus) []) ch)))"

text \<open>
  The process as a server of scrape requests (line 559 hands every request for the
  metrics path to the registry, which calls \<^verbatim>\<open>Collect\<close>): given the backend as it is at
  each successive scrape, the metrics sent in each scrape that was served, and how the
  process ended if it did. A scrape that ends the process is not served, nor is any after.
\<close>

fun serve :: "backend list \<Rightarrow> chan list \<times> fatal option" where
  "serve [] = ([], None)"
| "serve (b # bs) =
     (case Collect_Exporter b [] of
        Fatal f ch \<Rightarrow> ([], Some f)
      | Return ch \<Rightarrow> (case serve bs of (served, e) \<Rightarrow> (ch # served, e)))"

text \<open>The values sent for one descriptor, in the order sent.\<close>

fun valuesOf :: "desc \<Rightarrow> chan \<Rightarrow> number list" where
  "valuesOf d [] = []"
| "valuesOf d (MustNewConstMetric d' x labels # ch) =
     (if d' = d then x # valuesOf d ch else valuesOf d ch)"

text \<open>A reply with its status code replaced, whatever it was.\<close>

fun withStatusCode :: "int \<Rightarrow> 'a reply \<Rightarrow> 'a reply" where
  "withStatusCode c (Response statusCode b) = Response c b"
| "withStatusCode c NewRequestError = NewRequestError"
| "withStatusCode c DoError = DoError"

section \<open>The loops in closed form\<close>

text \<open>What one pass of a loop body does to each counter.\<close>

lemma hostsBody_sel:
  "hostsCount (hostsBody v c) = hostsCount c + 1"
  "hostsActiveCheckCount (hostsBody v c) =
     hostsActiveCheckCount c + (if Hoststatus_elem.CheckType v = 0 then 1 else 0)"
  "hostsPassiveCheckCount (hostsBody v c) =
     hostsPassiveCheckCount c + (if Hoststatus_elem.CheckType v = 0 then 0 else 1)"
  "hostsUpCount (hostsBody v c) =
     hostsUpCount c + (if Hoststatus_elem.CurrentState v = 0 then 1 else 0)"
  "hostsDownCount (hostsBody v c) =
     hostsDownCount c + (if Hoststatus_elem.CurrentState v = 1 then 1 else 0)"
  "hostsUnreachableCount (hostsBody v c) =
     hostsUnreachableCount c + (if Hoststatus_elem.CurrentState v = 2 then 1 else 0)"
  "hostsFlapCount (hostsBody v c) =
     hostsFlapCount c + (if Hoststatus_elem.IsFlapping v = 1 then 1 else 0)"
  "hostsDowntimeCount (hostsBody v c) =
     hostsDowntimeCount c + (if Hoststatus_elem.ScheduledDowntimeDepth v = 1 then 1 else 0)"
  by (simp_all add: hostsBody_def Let_def)

lemma servicesBody_sel:
  "servicesCount (servicesBody v c) = servicesCount c + 1"
  "servicessCheckedCount (servicesBody v c) =
     servicessCheckedCount c + (if HasBeenChecked v = 0 then 1 else 0)"
  "servicesScheduledCount (servicesBody v c) =
     servicesScheduledCount c + (if ShouldBeScheduled v = 0 then 1 else 0)"
  "servicesActiveCheckCount (servicesBody v c) =
     servicesActiveCheckCount c + (if Servicestatus_elem.CheckType v = 0 then 1 else 0)"
  "servicesPassiveCheckCount (servicesBody v c) =
     servicesPassiveCheckCount c + (if Servicestatus_elem.CheckType v = 0 then 0 else 1)"
  "servicesOkCount (servicesBody v c) =
     servicesOkCount c + (if Servicestatus_elem.CurrentState v = 0 then 1 else 0)"
  "servicesWarnCount (servicesBody v c) =
     servicesWarnCount c + (if Servicestatus_elem.CurrentState v = 1 then 1 else 0)"
  "servicesCriticalCount (servicesBody v c) =
     servicesCriticalCount c + (if Servicestatus_elem.CurrentState v = 2 then 1 else 0)"
  "servicesUnknownCount (servicesBody v c) =
     servicesUnknownCount c + (if Servicestatus_elem.CurrentState v = 3 then 1 else 0)"
  "servicesFlapCount (servicesBody v c) =
     servicesFlapCount c + (if Servicestatus_elem.IsFlapping v = 1 then 1 else 0)"
  "servicesDowntimeCount (servicesBody v c) =
     servicesDowntimeCount c +
     (if Servicestatus_elem.ScheduledDowntimeDepth v = 1 then 1 else 0)"
  by (simp_all add: servicesBody_def Let_def)

text \<open>
  Over a whole list each counter grows by the number of elements that pass the test
  guarding its increment. The start value is generalised, since every pass changes it.
\<close>

lemma fold_hostsBody_sel:
  "hostsCount (fold hostsBody vs c) = hostsCount c + length vs"
  "hostsActiveCheckCount (fold hostsBody vs c) =
     hostsActiveCheckCount c + length (filter (\<lambda>v. Hoststatus_elem.CheckType v = 0) vs)"
  "hostsPassiveCheckCount (fold hostsBody vs c) =
     hostsPassiveCheckCount c + length (filter (\<lambda>v. Hoststatus_elem.CheckType v \<noteq> 0) vs)"
  "hostsUpCount (fold hostsBody vs c) =
     hostsUpCount c + length (filter (\<lambda>v. Hoststatus_elem.CurrentState v = 0) vs)"
  "hostsDownCount (fold hostsBody vs c) =
     hostsDownCount c + length (filter (\<lambda>v. Hoststatus_elem.CurrentState v = 1) vs)"
  "hostsUnreachableCount (fold hostsBody vs c) =
     hostsUnreachableCount c + length (filter (\<lambda>v. Hoststatus_elem.CurrentState v = 2) vs)"
  "hostsFlapCount (fold hostsBody vs c) =
     hostsFlapCount c + length (filter (\<lambda>v. Hoststatus_elem.IsFlapping v = 1) vs)"
  "hostsDowntimeCount (fold hostsBody vs c) =
     hostsDowntimeCount c +
     length (filter (\<lambda>v. Hoststatus_elem.ScheduledDowntimeDepth v = 1) vs)"
  by (induction vs arbitrary: c; simp add: hostsBody_sel)+

lemma fold_servicesBody_sel:
  "servicesCount (fold servicesBody vs c) = servicesCount c + length vs"
  "servicessCheckedCount (fold servicesBody vs c) =
     servicessCheckedCount c + length (filter (\<lambda>v. HasBeenChecked v = 0) vs)"
  "servicesScheduledCount (fold servicesBody vs c) =
     servicesScheduledCount c + length (filter (\<lambda>v. ShouldBeScheduled v = 0) vs)"
  "servicesActiveCheckCount (fold servicesBody vs c) =
     servicesActiveCheckCount c +
     length (filter (\<lambda>v. Servicestatus_elem.CheckType v = 0) vs)"
  "servicesPassiveCheckCount (fold servicesBody vs c) =
     servicesPassiveCheckCount c +
     length (filter (\<lambda>v. Servicestatus_elem.CheckType v \<noteq> 0) vs)"
  "servicesOkCount (fold servicesBody vs c) =
     servicesOkCount c + length (filter (\<lambda>v. Servicestatus_elem.CurrentState v = 0) vs)"
  "servicesWarnCount (fold servicesBody vs c) =
     servicesWarnCount c + length (filter (\<lambda>v. Servicestatus_elem.CurrentState v = 1) vs)"
  "servicesCriticalCount (fold servicesBody vs c) =
     servicesCriticalCount c +
     length (filter (\<lambda>v. Servicestatus_elem.CurrentState v = 2) vs)"
  "servicesUnknownCount (fold servicesBody vs c) =
     servicesUnknownCount c +
     length (filter (\<lambda>v. Servicestatus_elem.CurrentState v = 3) vs)"
  "servicesFlapCount (fold servicesBody vs c) =
     servicesFlapCount c + length (filter (\<lambda>v. Servicestatus_elem.IsFlapping v = 1) vs)"
  "servicesDowntimeCount (fold servicesBody vs c) =
     servicesDowntimeCount c +
     length (filter (\<lambda>v. Servicestatus_elem.ScheduledDowntimeDepth v = 1) vs)"
  by (induction vs arbitrary: c; simp add: servicesBody_sel)+

lemma hostsLoop_closed:
  "hostsLoop vs =
     \<lparr>hostsCount = length vs,
      hostsActiveCheckCount = length (filter (\<lambda>v. Hoststatus_elem.CheckType v = 0) vs),
      hostsPassiveCheckCount = length (filter (\<lambda>v. Hoststatus_elem.CheckType v \<noteq> 0) vs),
      hostsUpCount = length (filter (\<lambda>v. Hoststatus_elem.CurrentState v = 0) vs),
      hostsDownCount = length (filter (\<lambda>v. Hoststatus_elem.CurrentState v = 1) vs),
      hostsUnreachableCount = length (filter (\<lambda>v. Hoststatus_elem.CurrentState v = 2) vs),
      hostsFlapCount = length (filter (\<lambda>v. Hoststatus_elem.IsFlapping v = 1) vs),
      hostsDowntimeCount =
        length (filter (\<lambda>v. Hoststatus_elem.ScheduledDowntimeDepth v = 1) vs)\<rparr>"
  by (rule hostCounters.equality) (simp_all add: hostsLoop_def fold_hostsBody_sel hostsZero_def)

lemma servicesLoop_closed:
  "servicesLoop vs =
     \<lparr>servicesCount = length vs,
      servicessCheckedCount = length (filter (\<lambda>v. HasBeenChecked v = 0) vs),
      servicesScheduledCount = length (filter (\<lambda>v. ShouldBeScheduled v = 0) vs),
      servicesActiveCheckCount =
        length (filter (\<lambda>v. Servicestatus_elem.CheckType v = 0) vs),
      servicesPassiveCheckCount =
        length (filter (\<lambda>v. Servicestatus_elem.CheckType v \<noteq> 0) vs),
      servicesOkCount = length (filter (\<lambda>v. Servicestatus_elem.CurrentState v = 0) vs),
      servicesWarnCount = length (filter (\<lambda>v. Servicestatus_elem.CurrentState v = 1) vs),
      servicesCriticalCount =
        length (filter (\<lambda>v. Servicestatus_elem.CurrentState v = 2) vs),
      servicesUnknownCount =
        length (filter (\<lambda>v. Servicestatus_elem.CurrentState v = 3) vs),
      servicesFlapCount = length (filter (\<lambda>v. Servicestatus_elem.IsFlapping v = 1) vs),
      servicesDowntimeCount =
        length (filter (\<lambda>v. Servicestatus_elem.ScheduledDowntimeDepth v = 1) vs)\<rparr>"
  by (rule serviceCounters.equality)
     (simp_all add: servicesLoop_def fold_servicesBody_sel servicesZero_def)

text \<open>Counting the elements that pass a test does not depend on their order.\<close>

lemma length_filter_mset:
  assumes "mset xs = mset ys"
  shows "length (filter P xs) = length (filter P ys)"
proof -
  have "mset (filter P xs) = mset (filter P ys)"
    using assms by (simp only: mset_filter)
  then have "size (mset (filter P xs)) = size (mset (filter P ys))"
    by (rule arg_cong)
  then show ?thesis
    by (simp only: size_mset)
qed

text \<open>Three tests that exclude one another count, together, the elements passing any.\<close>

lemma length_filter_three:
  assumes "\<And>x. \<not> (P x \<and> Q x)" and "\<And>x. \<not> (P x \<and> R x)" and "\<And>x. \<not> (Q x \<and> R x)"
  shows "length (filter P xs) + length (filter Q xs) + length (filter R xs) =
         length (filter (\<lambda>x. P x \<or> Q x \<or> R x) xs)"
  using assms by (induction xs) auto

section \<open>The paths through the collector\<close>

text \<open>What \<open>fetch\<close> returns for each kind of reply.\<close>

lemma fetch_simps:
  "fetch NewRequestError = Inl (os_Exit 1)"
  "fetch DoError = Inl (os_Exit 1)"
  "fetch (Response c ReadError) = Inl log_Fatal"
  "fetch (Response c JsonError) = Inl log_Fatal"
  "fetch (Response c (Json x)) = Inr x"
  by (simp_all add: fetch_def)

lemma fetch_Inr_iff: "fetch r = Inr x \<longleftrightarrow> (\<exists>c. r = Response c (Json x))"
proof (cases r)
  case (Response c b)
  then show ?thesis by (cases b) (simp_all add: fetch_simps)
qed (simp_all add: fetch_simps)

lemma fetch_withStatusCode: "fetch (withStatusCode c r) = fetch r"
proof (cases r)
  case (Response c' b)
  then show ?thesis by (cases b) (simp_all add: fetch_simps)
qed (simp_all add: fetch_simps)

lemma Collect_status_fatal:
  "fetch (systemstatusAPI b) = Inl f \<Longrightarrow> Collect_Exporter b ch = Fatal f ch"
  by (simp add: Collect_Exporter_def TestNagiosConnectivity_def)

lemma Collect_status_decoded:
  "fetch (systemstatusAPI b) = Inr st \<Longrightarrow>
   Collect_Exporter b ch =
     HitNagiosRestApisAndUpdateMetrics b (send (MustNewConstMetric up (F64 (Running st)) []) ch)"
  by (simp add: Collect_Exporter_def TestNagiosConnectivity_def)

lemma Hit_info_fatal:
  "fetch (systeminfoAPI b) = Inl f \<Longrightarrow> HitNagiosRestApisAndUpdateMetrics b ch = Fatal f ch"
  by (simp add: HitNagiosRestApisAndUpdateMetrics_def)

lemma Hit_hosts_fatal:
  "fetch (systeminfoAPI b) = Inr info \<Longrightarrow> fetch (hoststatusAPI b) = Inl f \<Longrightarrow>
   HitNagiosRestApisAndUpdateMetrics b ch =
     Fatal f (send (MustNewConstMetric versionInfo (F64 1) [Version info]) ch)"
  by (simp add: HitNagiosRestApisAndUpdateMetrics_def)

lemma Hit_services_fatal:
  "fetch (systeminfoAPI b) = Inr info \<Longrightarrow> fetch (hoststatusAPI b) = Inr h \<Longrightarrow>
   fetch (servicestatusAPI b) = Inl f \<Longrightarrow>
   HitNagiosRestApisAndUpdateMetrics b ch =
     Fatal f
       (emitHosts (hostsLoop (Hoststatus h))
         (send (MustNewConstMetric hostsTotal (F64_of_int (sint (hostStatus.Recordcount h))) [])
           (send (MustNewConstMetric versionInfo (F64 1) [Version info]) ch)))"
  by (simp add: HitNagiosRestApisAndUpdateMetrics_def Let_def)

lemma Hit_decoded:
  "fetch (systeminfoAPI b) = Inr info \<Longrightarrow> fetch (hoststatusAPI b) = Inr h \<Longrightarrow>
   fetch (servicestatusAPI b) = Inr s \<Longrightarrow>
   HitNagiosRestApisAndUpdateMetrics b ch =
     Return
       (emitServices (hostsLoop (Hoststatus h)) (servicesLoop (Servicestatus s))
         (send (MustNewConstMetric servicesTotal
                 (F64_of_int (sint (serviceStatus.Recordcount s))) [])
           (emitHosts (hostsLoop (Hoststatus h))
             (send (MustNewConstMetric hostsTotal
                     (F64_of_int (sint (hostStatus.Recordcount h))) [])
               (send (MustNewConstMetric versionInfo (F64 1) [Version info]) ch)))))"
  by (simp add: HitNagiosRestApisAndUpdateMetrics_def Let_def)

lemma Hit_ignores_status:
  "HitNagiosRestApisAndUpdateMetrics (b\<lparr>systemstatusAPI := r\<rparr>) ch =
   HitNagiosRestApisAndUpdateMetrics b ch"
  by (simp add: HitNagiosRestApisAndUpdateMetrics_def Let_def split: sum.splits)

text \<open>The whole snapshot of a scrape in which all four payloads decode.\<close>

lemma Collect_decoded:
  "Collect_Exporter
     \<lparr>systemstatusAPI = Response c0 (Json st), systeminfoAPI = Response c1 (Json info),
      hoststatusAPI = Response c2 (Json h), servicestatusAPI = Response c3 (Json s)\<rparr> ch =
   Return (ch @
     [MustNewConstMetric up (F64 (Running st)) [],
      MustNewConstMetric versionInfo (F64 1) [Version info],
      MustNewConstMetric hostsTotal (F64_of_int (sint (hostStatus.Recordcount h))) [],
      MustNewConstMetric hostsActivelyCheckedTotal
        (F64_of_int (int (hostsActiveCheckCount (hostsLoop (Hoststatus h))))) [],
      MustNewConstMetric hostsPassivelyCheckedTotal
        (F64_of_int (int (hostsPassiveCheckCount (hostsLoop (Hoststatus h))))) [],
      MustNewConstMetric hostsUp
        (F64_of_int (int (hostsUpCount (hostsLoop (Hoststatus h))))) [],
      MustNewConstMetric hostsDown
        (F64_of_int (int (hostsDownCount (hostsLoop (Hoststatus h))))) [],
      MustNewConstMetric hostsUnreachable
        (F64_of_int (int (hostsUnreachableCount (hostsLoop (Hoststatus h))))) [],
      MustNewConstMetric hostsFlapping
        (F64_of_int (int (hostsFlapCount (hostsLoop (Hoststatus h))))) [],
      MustNewConstMetric hostsDowntime
        (F64_of_int (int (hostsDowntimeCount (hostsLoop (Hoststatus h))))) [],
      MustNewConstMetric servicesTotal (F64_of_int (sint (serviceStatus.Recordcount s))) [],
      MustNewConstMetric servicesActivelyCheckedTotal
        (F64_of_int (int (servicesActiveCheckCount (servicesLoop (Servicestatus s))))) [],
      MustNewConstMetric servicesPassivelyCheckedTotal
        (F64_of_int (int (hostsPassiveCheckCount (hostsLoop (Hoststatus h))))) [],
      MustNewConstMetric servicesOk
        (F64_of_int (int (servicesOkCount (servicesLoop (Servicestatus s))))) [],
      MustNewConstMetric servicesWarn
        (F64_of_int (int (servicesWarnCount (servicesLoop (Servicestatus s))))) [],
      MustNewConstMetric servicesCritical
        (F64_of_int (int (servicesWarnCount (servicesLoop (Servicestatus s))))) [],
      MustNewConstMetric servicesUnknown
        (F64_of_int (int (servicesUnknownCount (servicesLoop (Servicestatus s))))) [],
      MustNewConstMetric servicesFlapping
        (F64_of_int (int (servicesFlapCount (servicesLoop (Servicestatus s))))) [],
      MustNewConstMetric servicesDowntime
        (F64_of_int (int (servicesDowntimeCount (servicesLoop (Servicestatus s))))) []])"
  by (simp add: Collect_status_decoded [where st = st] Hit_decoded [where info = info and h = h and s = s]
      fetch_simps send_def emitHosts_def emitServices_def)

lemma valuesOf_append: "valuesOf d (ch @ ch') = valuesOf d ch @ valuesOf d ch'"
  by (induction d ch rule: valuesOf.induct) simp_all

text \<open>
  A scrape sends a value for a service gauge only when it returns, and it returns only
  when all four payloads decode.
\<close>

lemma Collect_cases:
  obtains (fatal) f ch' where "Collect_Exporter b ch = Fatal f ch'"
      and "valuesOf servicesPassivelyCheckedTotal ch' = valuesOf servicesPassivelyCheckedTotal ch"
      and "valuesOf servicesCritical ch' = valuesOf servicesCritical ch"
    | (decoded) c0 st c1 info c2 h c3 s where
        "b = \<lparr>systemstatusAPI = Response c0 (Json st), systeminfoAPI = Response c1 (Json info),
              hoststatusAPI = Response c2 (Json h), servicestatusAPI = Response c3 (Json s)\<rparr>"
proof (cases "fetch (systemstatusAPI b)")
  case (Inl f)
  then show ?thesis using fatal by (simp add: Collect_status_fatal)
next
  case st: (Inr st)
  show ?thesis
  proof (cases "fetch (systeminfoAPI b)")
    case (Inl f)
    then show ?thesis using fatal st
      by (simp add: Collect_status_decoded Hit_info_fatal send_def valuesOf_append)
  next
    case info: (Inr info)
    show ?thesis
    proof (cases "fetch (hoststatusAPI b)")
      case (Inl f)
      then show ?thesis using fatal st info
        by (simp add: Collect_status_decoded Hit_hosts_fatal send_def valuesOf_append)
    next
      case h: (Inr h)
      show ?thesis
      proof (cases "fetch (servicestatusAPI b)")
        case (Inl f)
        then show ?thesis using fatal st info h
          by (simp add: Collect_status_decoded Hit_services_fatal send_def emitHosts_def
              valuesOf_append)
      next
        case s: (Inr s)
        from st info h s obtain c0 c1 c2 c3 where
          "systemstatusAPI b = Response c0 (Json st)" "systeminfoAPI b = Response c1 (Json info)"
          "hoststatusAPI b = Response c2 (Json h)" "servicestatusAPI b = Response c3 (Json s)"
          by (auto simp: fetch_Inr_iff)
        then have "b = \<lparr>systemstatusAPI = Response c0 (Json st),
              systeminfoAPI = Response c1 (Json info),
              hoststatusAPI = Response c2 (Json h), servicestatusAPI = Response c3 (Json s)\<rparr>"
          by (cases b) simp
        then show ?thesis by (rule decoded)
      qed
    qed
  qed
qed

text \<open>A scrape depends on the four replies only through what \<open>fetch\<close> makes of them.\<close>

lemma Collect_fetch_cong:
  assumes "fetch (systemstatusAPI b) = fetch (systemstatusAPI b')"
    and "fetch (systeminfoAPI b) = fetch (systeminfoAPI b')"
    and "fetch (hoststatusAPI b) = fetch (hoststatusAPI b')"
    and "fetch (servicestatusAPI b) = fetch (servicestatusAPI b')"
  shows "Collect_Exporter b ch = Collect_Exporter b' ch"
proof -
  have "HitNagiosRestApisAndUpdateMetrics b ch' = HitNagiosRestApisAndUpdateMetrics b' ch'"
    for ch'
    unfolding HitNagiosRestApisAndUpdateMetrics_def assms by (rule refl)
  then show ?thesis
    using assms(1)
    by (cases "fetch (systemstatusAPI b')")
       (simp_all add: Collect_status_fatal Collect_status_decoded)
qed

section \<open>The claims\<close>

text \<open>
  Claim C1 asks that a network failure of the liveness probe makes \<^verbatim>\<open>Collect\<close> send
  \<^verbatim>\<open>up\<close> with value 0 and nothing else, and that the process goes on serving scrapes.
  The program does otherwise. When \<^verbatim>\<open>http.DefaultClient.Do\<close> fails for the system-status
  request, \<^verbatim>\<open>TestNagiosConnectivity\<close> ends the process with \<^verbatim>\<open>os.Exit(1)\<close> (line 246):
  nothing has been sent on the channel, and neither this scrape nor any later one is
  served. \<^verbatim>\<open>TestNagiosConnectivity\<close> never returns an error that is not \<^verbatim>\<open>nil\<close>, so the
  branch of \<^verbatim>\<open>Collect\<close> that would send \<^verbatim>\<open>up\<close> and return (lines 271-277) is never taken.
\<close>

theorem C1_liveness_failure_ends_process:
  "TestNagiosConnectivity (b\<lparr>systemstatusAPI := DoError\<rparr>) = Inl (os_Exit 1)
   \<and> Collect_Exporter (b\<lparr>systemstatusAPI := DoError\<rparr>) ch = Fatal (os_Exit 1) ch
   \<and> serve (b\<lparr>systemstatusAPI := DoError\<rparr> # bs) = ([], Some (os_Exit 1))
   \<and> TestNagiosConnectivity b' \<noteq> Inr (x, Some e)"
  by (simp add: Collect_status_fatal TestNagiosConnectivity_def fetch_simps split: sum.splits)

text \<open>
  Claim C2: for every list of host records the two check-type counters add up to the
  length of the list, each record adding one to exactly one of them, and the three state
  counters add up to at most the length of the list: they count the records whose
  \<^verbatim>\<open>current_state\<close> is 0, 1 or 2, and a record with any other state adds to none of the
  three, only to the count of all records. The statement is given for the whole loop
  and for one pass of its body from any counter values.
\<close>

theorem C2_host_buckets:
  "hostsActiveCheckCount (hostsLoop vs) + hostsPassiveCheckCount (hostsLoop vs) = length vs
   \<and> hostsActiveCheckCount (hostsLoop vs) =
       length (filter (\<lambda>v. Hoststatus_elem.CheckType v = 0) vs)
   \<and> hostsPassiveCheckCount (hostsLoop vs) =
       length (filter (\<lambda>v. Hoststatus_elem.CheckType v \<noteq> 0) vs)
   \<and> hostsUpCount (hostsLoop vs) + hostsDownCount (hostsLoop vs) +
       hostsUnreachableCount (hostsLoop vs) \<le> length vs
   \<and> hostsUpCount (hostsLoop vs) + hostsDownCount (hostsLoop vs) +
       hostsUnreachableCount (hostsLoop vs) =
       length (filter (\<lambda>v. Hoststatus_elem.CurrentState v = 0 \<or>
                            Hoststatus_elem.CurrentState v = 1 \<or>
                            Hoststatus_elem.CurrentState v = 2) vs)
   \<and> hostsCount (hostsLoop vs) = length vs
   \<and> hostsActiveCheckCount (hostsBody v c) + hostsPassiveCheckCount (hostsBody v c) =
       hostsActiveCheckCount c + hostsPassiveCheckCount c + 1
   \<and> hostsUpCount (hostsBody v c) + hostsDownCount (hostsBody v c) +
       hostsUnreachableCount (hostsBody v c) =
       hostsUpCount c + hostsDownCount c + hostsUnreachableCount c +
       (if Hoststatus_elem.CurrentState v = 0 \<or> Hoststatus_elem.CurrentState v = 1 \<or>
           Hoststatus_elem.CurrentState v = 2 then 1 else 0)
   \<and> hostsCount (hostsBody v c) = hostsCount c + 1"
proof -
  have check: "length (filter (\<lambda>v. Hoststatus_elem.CheckType v = 0) vs) +
      length (filter (\<lambda>v. Hoststatus_elem.CheckType v \<noteq> 0) vs) = length vs"
    by (rule sum_length_filter_compl)
  have state: "length (filter (\<lambda>v. Hoststatus_elem.CurrentState v = 0) vs) +
      length (filter (\<lambda>v. Hoststatus_elem.CurrentState v = 1) vs) +
      length (filter (\<lambda>v. Hoststatus_elem.CurrentState v = 2) vs) =
      length (filter (\<lambda>v. Hoststatus_elem.CurrentState v = 0 \<or>
                           Hoststatus_elem.CurrentState v = 1 \<or>
                           Hoststatus_elem.CurrentState v = 2) vs)"
    by (rule length_filter_three) simp_all
  have bound: "length (filter (\<lambda>v. Hoststatus_elem.CurrentState v = 0 \<or>
                           Hoststatus_elem.CurrentState v = 1 \<or>
                           Hoststatus_elem.CurrentState v = 2) vs) \<le> length vs"
    by (rule length_filter_le)
  have loop: "hostsActiveCheckCount (hostsLoop vs) + hostsPassiveCheckCount (hostsLoop vs) =
        length vs
     \<and> hostsActiveCheckCount (hostsLoop vs) =
        length (filter (\<lambda>v. Hoststatus_elem.CheckType v = 0) vs)
     \<and> hostsPassiveCheckCount (hostsLoop vs) =
        length (filter (\<lambda>v. Hoststatus_elem.CheckType v \<noteq> 0) vs)
     \<and> hostsUpCount (hostsLoop vs) + hostsDownCount (hostsLoop vs) +
        hostsUnreachableCount (hostsLoop vs) \<le> length vs
     \<and> hostsUpCount (hostsLoop vs) + hostsDownCount (hostsLoop vs) +
        hostsUnreachableCount (hostsLoop vs) =
        length (filter (\<lambda>v. Hoststatus_elem.CurrentState v = 0 \<or>
                            Hoststatus_elem.CurrentState v = 1 \<or>
                            Hoststatus_elem.CurrentState v = 2) vs)
     \<and> hostsCount (hostsLoop vs) = length vs"
    using check state bound by (simp add: hostsLoop_closed)
  have pass: "hostsActiveCheckCount (hostsBody v c) + hostsPassiveCheckCount (hostsBody v c) =
        hostsActiveCheckCount c + hostsPassiveCheckCount c + 1
     \<and> hostsUpCount (hostsBody v c) + hostsDownCount (hostsBody v c) +
        hostsUnreachableCount (hostsBody v c) =
        hostsUpCount c + hostsDownCount c + hostsUnreachableCount c +
        (if Hoststatus_elem.CurrentState v = 0 \<or> Hoststatus_elem.CurrentState v = 1 \<or>
            Hoststatus_elem.CurrentState v = 2 then 1 else 0)
     \<and> hostsCount (hostsBody v c) = hostsCount c + 1"
    by (simp add: hostsBody_sel)
  from loop pass show ?thesis by (elim conjE) (intro conjI; assumption)
qed

text \<open>
  Claim C3: in this program the value sent for \<^verbatim>\<open>services_passively_checked_total\<close>
  is the passive-check counter of the hosts (line 502 reads \<^verbatim>\<open>hostsPassiveCheckCount\<close>)
  and the value sent for \<^verbatim>\<open>services_critical_total\<close> is the warn counter of the
  services (line 514 reads \<^verbatim>\<open>servicesWarnCount\<close>). When all four payloads decode, each of
  the two gauges is sent once, with that value; and in every scrape whatsoever a value
  sent for either gauge is that value, the scrape sending none when it ends the process
  before the service gauges. These are not the services' own counters: with no host and
  one passively checked service in state 2 both gauges are sent with 0, while the
  services' passive and critical counters are both 1.
\<close>

theorem C3_reference_mixups:
  "valuesOf servicesPassivelyCheckedTotal
     (sent (Collect_Exporter
       \<lparr>systemstatusAPI = Response c0 (Json st), systeminfoAPI = Response c1 (Json info),
        hoststatusAPI = Response c2 (Json h), servicestatusAPI = Response c3 (Json s)\<rparr> [])) =
     [F64_of_int (int (hostsPassiveCheckCount (hostsLoop (Hoststatus h))))]
   \<and> valuesOf servicesCritical
     (sent (Collect_Exporter
       \<lparr>systemstatusAPI = Response c0 (Json st), systeminfoAPI = Response c1 (Json info),
        hoststatusAPI = Response c2 (Json h), servicestatusAPI = Response c3 (Json s)\<rparr> [])) =
     [F64_of_int (int (servicesWarnCount (servicesLoop (Servicestatus s))))]
   \<and> (valuesOf servicesPassivelyCheckedTotal (sent (Collect_Exporter b [])) = [] \<or>
       (\<exists>c h. hoststatusAPI b = Response c (Json h) \<and>
          valuesOf servicesPassivelyCheckedTotal (sent (Collect_Exporter b [])) =
            [F64_of_int (int (hostsPassiveCheckCount (hostsLoop (Hoststatus h))))]))
   \<and> (valuesOf servicesCritical (sent (Collect_Exporter b [])) = [] \<or>
       (\<exists>c s. servicestatusAPI b = Response c (Json s) \<and>
          valuesOf servicesCritical (sent (Collect_Exporter b [])) =
            [F64_of_int (int (servicesWarnCount (servicesLoop (Servicestatus s))))]))
   \<and> valuesOf servicesPassivelyCheckedTotal
     (sent (Collect_Exporter
       \<lparr>systemstatusAPI = Response 200 (Json \<lparr>Running = 1\<rparr>),
        systeminfoAPI = Response 200 (Json \<lparr>Version = ''5.8.10''\<rparr>),
        hoststatusAPI = Response 200 (Json \<lparr>hostStatus.Recordcount = 0, Hoststatus = []\<rparr>),
        servicestatusAPI = Response 200 (Json
          \<lparr>serviceStatus.Recordcount = 1,
           Servicestatus =
             [\<lparr>HasBeenChecked = 1, ShouldBeScheduled = 1, CheckType = 1, CurrentState = 2,
               IsFlapping = 0, ScheduledDowntimeDepth = 0\<rparr>]\<rparr>)\<rparr> [])) =
     [F64_of_int 0]
   \<and> valuesOf servicesCritical
     (sent (Collect_Exporter
       \<lparr>systemstatusAPI = Response 200 (Json \<lparr>Running = 1\<rparr>),
        systeminfoAPI = Response 200 (Json \<lparr>Version = ''5.8.10''\<rparr>),
        hoststatusAPI = Response 200 (Json \<lparr>hostStatus.Recordcount = 0, Hoststatus = []\<rparr>),
        servicestatusAPI = Response 200 (Json
          \<lparr>serviceStatus.Recordcount = 1,
           Servicestatus =
             [\<lparr>HasBeenChecked = 1, ShouldBeScheduled = 1, CheckType = 1, CurrentState = 2,
               IsFlapping = 0, ScheduledDowntimeDepth = 0\<rparr>]\<rparr>)\<rparr> [])) =
     [F64_of_int 0]
   \<and> servicesPassiveCheckCount (servicesLoop
         [\<lparr>HasBeenChecked = 1, ShouldBeScheduled = 1, CheckType = 1, CurrentState = 2,
           IsFlapping = 0, ScheduledDowntimeDepth = 0\<rparr>]) = 1
   \<and> servicesCriticalCount (servicesLoop
         [\<lparr>HasBeenChecked = 1, ShouldBeScheduled = 1, CheckType = 1, CurrentState = 2,
           IsFlapping = 0, ScheduledDowntimeDepth = 0\<rparr>]) = 1"
proof -
  have differ:
    "valuesOf servicesPassivelyCheckedTotal
      (sent (Collect_Exporter
        \<lparr>systemstatusAPI = Response 200 (Json \<lparr>Running = 1\<rparr>),
         systeminfoAPI = Response 200 (Json \<lparr>Version = ''5.8.10''\<rparr>),
         hoststatusAPI = Response 200 (Json \<lparr>hostStatus.Recordcount = 0, Hoststatus = []\<rparr>),
         servicestatusAPI = Response 200 (Json
           \<lparr>serviceStatus.Recordcount = 1,
            Servicestatus =
              [\<lparr>HasBeenChecked = 1, ShouldBeScheduled = 1, CheckType = 1, CurrentState = 2,
                IsFlapping = 0, ScheduledDowntimeDepth = 0\<rparr>]\<rparr>)\<rparr> [])) =
      [F64_of_int 0]
    \<and> valuesOf servicesCritical
      (sent (Collect_Exporter
        \<lparr>systemstatusAPI = Response 200 (Json \<lparr>Running = 1\<rparr>),
         systeminfoAPI = Response 200 (Json \<lparr>Version = ''5.8.10''\<rparr>),
         hoststatusAPI = Response 200 (Json \<lparr>hostStatus.Recordcount = 0, Hoststatus = []\<rparr>),
         servicestatusAPI = Response 200 (Json
           \<lparr>serviceStatus.Recordcount = 1,
            Servicestatus =
              [\<lparr>HasBeenChecked = 1, ShouldBeScheduled = 1, CheckType = 1, CurrentState = 2,
                IsFlapping = 0, ScheduledDowntimeDepth = 0\<rparr>]\<rparr>)\<rparr> [])) =
      [F64_of_int 0]
    \<and> servicesPassiveCheckCount (servicesLoop
          [\<lparr>HasBeenChecked = 1, ShouldBeScheduled = 1, CheckType = 1, CurrentState = 2,
            IsFlapping = 0, ScheduledDowntimeDepth = 0\<rparr>]) = 1
    \<and> servicesCriticalCount (servicesLoop
          [\<lparr>HasBeenChecked = 1, ShouldBeScheduled = 1, CheckType = 1, CurrentState = 2,
            IsFlapping = 0, ScheduledDowntimeDepth = 0\<rparr>]) = 1"
    by (simp add: Collect_decoded hostsLoop_closed servicesLoop_closed)
  have on_decoded:
    "valuesOf servicesPassivelyCheckedTotal
       (sent (Collect_Exporter
         \<lparr>systemstatusAPI = Response c0 (Json st), systeminfoAPI = Response c1 (Json info),
          hoststatusAPI = Response c2 (Json h), servicestatusAPI = Response c3 (Json s)\<rparr> [])) =
       [F64_of_int (int (hostsPassiveCheckCount (hostsLoop (Hoststatus h))))]
     \<and> valuesOf servicesCritical
       (sent (Collect_Exporter
         \<lparr>systemstatusAPI = Response c0 (Json st), systeminfoAPI = Response c1 (Json info),
          hoststatusAPI = Response c2 (Json h), servicestatusAPI = Response c3 (Json s)\<rparr> [])) =
       [F64_of_int (int (servicesWarnCount (servicesLoop (Servicestatus s))))]"
    for c0 st c1 info c2 h c3 s
    by (simp add: Collect_decoded)
  have every:
    "(valuesOf servicesPassivelyCheckedTotal (sent (Collect_Exporter b [])) = [] \<or>
       (\<exists>c h. hoststatusAPI b = Response c (Json h) \<and>
          valuesOf servicesPassivelyCheckedTotal (sent (Collect_Exporter b [])) =
            [F64_of_int (int (hostsPassiveCheckCount (hostsLoop (Hoststatus h))))]))
     \<and> (valuesOf servicesCritical (sent (Collect_Exporter b [])) = [] \<or>
       (\<exists>c s. servicestatusAPI b = Response c (Json s) \<and>
          valuesOf servicesCritical (sent (Collect_Exporter b [])) =
            [F64_of_int (int (servicesWarnCount (servicesLoop (Servicestatus s))))]))"
  proof (cases b "[] :: chan" rule: Collect_cases)
    case (fatal f ch')
    then show ?thesis by simp
  next
    case (decoded c0 st c1 info c2 h c3 s)
    show ?thesis
      unfolding decoded using on_decoded [of c0 st c1 info c2 h c3 s] by simp
  qed
  from on_decoded [of c0 st c1 info c2 h c3 s] every differ show ?thesis
    by (elim conjE) (intro conjI; assumption)
qed

text \<open>
  Claim C4 asks that four services in the states 0, 1, 2 and 3, all actively checked,
  give the service metrics ok = 1, warn = 1, critical = 1, unknown = 1, active = 4 and
  passive = 0. The counters of the loop are as the claim says. The metrics are not: the
  gauge \<^verbatim>\<open>services_passively_checked_total\<close> is sent with the hosts' passive counter
  (line 502), so with one passively checked host in the host payload the scrape reports
  one passively checked service. (The critical gauge shows 1 here only because it is sent
  with the warn counter, which is 1.)
\<close>

theorem C4_services_passive_from_hosts:
  "servicesLoop
     [\<lparr>HasBeenChecked = 1, ShouldBeScheduled = 1, CheckType = 0, CurrentState = 0,
       IsFlapping = 0, ScheduledDowntimeDepth = 0\<rparr>,
      \<lparr>HasBeenChecked = 1, ShouldBeScheduled = 1, CheckType = 0, CurrentState = 1,
       IsFlapping = 0, ScheduledDowntimeDepth = 0\<rparr>,
      \<lparr>HasBeenChecked = 1, ShouldBeScheduled = 1, CheckType = 0, CurrentState = 2,
       IsFlapping = 0, ScheduledDowntimeDepth = 0\<rparr>,
      \<lparr>HasBeenChecked = 1, ShouldBeScheduled = 1, CheckType = 0, CurrentState = 3,
       IsFlapping = 0, ScheduledDowntimeDepth = 0\<rparr>] =
     \<lparr>servicesCount = 4, servicessCheckedCount = 0, servicesScheduledCount = 0,
      servicesActiveCheckCount = 4, servicesPassiveCheckCount = 0,
      servicesOkCount = 1, servicesWarnCount = 1, servicesCriticalCount = 1,
      servicesUnknownCount = 1, servicesFlapCount = 0, servicesDowntimeCount = 0\<rparr>
   \<and> Collect_Exporter
     \<lparr>systemstatusAPI = Response 200 (Json \<lparr>Running = 1\<rparr>),
      systeminfoAPI = Response 200 (Json \<lparr>Version = ''5.8.10''\<rparr>),
      hoststatusAPI = Response 200 (Json
        \<lparr>hostStatus.Recordcount = 1,
         Hoststatus =
           [\<lparr>HostObjectID = 1, Hoststatus_elem.CheckType = 1,
             Hoststatus_elem.CurrentState = 0, Hoststatus_elem.IsFlapping = 0,
             Hoststatus_elem.ScheduledDowntimeDepth = 0\<rparr>]\<rparr>),
      servicestatusAPI = Response 200 (Json
        \<lparr>serviceStatus.Recordcount = 4,
         Servicestatus =
           [\<lparr>HasBeenChecked = 1, ShouldBeScheduled = 1, CheckType = 0, CurrentState = 0,
             IsFlapping = 0, ScheduledDowntimeDepth = 0\<rparr>,
            \<lparr>HasBeenChecked = 1, ShouldBeScheduled = 1, CheckType = 0, CurrentState = 1,
             IsFlapping = 0, ScheduledDowntimeDepth = 0\<rparr>,
            \<lparr>HasBeenChecked = 1, ShouldBeScheduled = 1, CheckType = 0, CurrentState = 2,
             IsFlapping = 0, ScheduledDowntimeDepth = 0\<rparr>,
            \<lparr>HasBeenChecked = 1, ShouldBeScheduled = 1, CheckType = 0, CurrentState = 3,
             IsFlapping = 0, ScheduledDowntimeDepth = 0\<rparr>]\<rparr>)\<rparr> [] =
     Return
       [MustNewConstMetric up (F64 1) [],
        MustNewConstMetric versionInfo (F64 1) [''5.8.10''],
        MustNewConstMetric hostsTotal (F64_of_int 1) [],
        MustNewConstMetric hostsActivelyCheckedTotal (F64_of_int 0) [],
        MustNewConstMetric hostsPassivelyCheckedTotal (F64_of_int 1) [],
        MustNewConstMetric hostsUp (F64_of_int 1) [],
        MustNewConstMetric hostsDown (F64_of_int 0) [],
        MustNewConstMetric hostsUnreachable (F64_of_int 0) [],
        MustNewConstMetric hostsFlapping (F64_of_int 0) [],
        MustNewConstMetric hostsDowntime (F64_of_int 0) [],
        MustNewConstMetric servicesTotal (F64_of_int 4) [],
        MustNewConstMetric servicesActivelyCheckedTotal (F64_of_int 4) [],
        MustNewConstMetric servicesPassivelyCheckedTotal (F64_of_int 1) [],
        MustNewConstMetric servicesOk (F64_of_int 1) [],
        MustNewConstMetric servicesWarn (F64_of_int 1) [],
        MustNewConstMetric servicesCritical (F64_of_int 1) [],
        MustNewConstMetric servicesUnknown (F64_of_int 1) [],
        MustNewConstMetric servicesFlapping (F64_of_int 0) [],
        MustNewConstMetric servicesDowntime (F64_of_int 0) []]"
  by (simp add: Collect_decoded hostsLoop_closed servicesLoop_closed)

text \<open>
  Claim C5 asks that a response with a status code outside 200-299 makes the fetch fail
  with an HTTP status error and that its body is never decoded. The program never reads
  the status code. Here every response has status 500; each body is decoded all the same,
  the host record is aggregated, and the scrape returns a full snapshot.
\<close>

theorem C5_non_2xx_is_decoded:
  "\<not> (200 \<le> (500 :: int) \<and> (500 :: int) < 300)
   \<and> fetch (Response 500 (Json \<lparr>Running = 1\<rparr>)) = Inr \<lparr>Running = 1\<rparr>
   \<and> Collect_Exporter
     \<lparr>systemstatusAPI = Response 500 (Json \<lparr>Running = 1\<rparr>),
      systeminfoAPI = Response 500 (Json \<lparr>Version = ''5.8.10''\<rparr>),
      hoststatusAPI = Response 500 (Json
        \<lparr>hostStatus.Recordcount = 1,
         Hoststatus =
           [\<lparr>HostObjectID = 1, Hoststatus_elem.CheckType = 0,
             Hoststatus_elem.CurrentState = 1, Hoststatus_elem.IsFlapping = 0,
             Hoststatus_elem.ScheduledDowntimeDepth = 0\<rparr>]\<rparr>),
      servicestatusAPI = Response 500 (Json
        \<lparr>serviceStatus.Recordcount = 0, Servicestatus = []\<rparr>)\<rparr> [] =
     Return
       [MustNewConstMetric up (F64 1) [],
        MustNewConstMetric versionInfo (F64 1) [''5.8.10''],
        MustNewConstMetric hostsTotal (F64_of_int 1) [],
        MustNewConstMetric hostsActivelyCheckedTotal (F64_of_int 1) [],
        MustNewConstMetric hostsPassivelyCheckedTotal (F64_of_int 0) [],
        MustNewConstMetric hostsUp (F64_of_int 0) [],
        MustNewConstMetric hostsDown (F64_of_int 1) [],
        MustNewConstMetric hostsUnreachable (F64_of_int 0) [],
        MustNewConstMetric hostsFlapping (F64_of_int 0) [],
        MustNewConstMetric hostsDowntime (F64_of_int 0) [],
        MustNewConstMetric servicesTotal (F64_of_int 0) [],
        MustNewConstMetric servicesActivelyCheckedTotal (F64_of_int 0) [],
        MustNewConstMetric servicesPassivelyCheckedTotal (F64_of_int 0) [],
        MustNewConstMetric servicesOk (F64_of_int 0) [],
        MustNewConstMetric servicesWarn (F64_of_int 0) [],
        MustNewConstMetric servicesCritical (F64_of_int 0) [],
        MustNewConstMetric servicesUnknown (F64_of_int 0) [],
        MustNewConstMetric servicesFlapping (F64_of_int 0) [],
        MustNewConstMetric servicesDowntime (F64_of_int 0) []]"
  by (simp add: Collect_decoded fetch_simps hostsLoop_closed servicesLoop_closed)

text \<open>
  Claim C5 as amended: no fetch inspects the status code of the response. A response is
  handled by its body alone, so a response with a status code outside 200-299 is treated
  exactly as a response with any other status code and the same body: the result of the
  fetch and the outcome of the whole scrape do not change when the status codes of the
  four replies are replaced by arbitrary ones.
\<close>

theorem C5_status_code_not_inspected:
  "fetch (withStatusCode c r) = fetch r
   \<and> Collect_Exporter
       \<lparr>systemstatusAPI = withStatusCode c0 r0, systeminfoAPI = withStatusCode c1 r1,
        hoststatusAPI = withStatusCode c2 r2, servicestatusAPI = withStatusCode c3 r3\<rparr> ch =
     Collect_Exporter
       \<lparr>systemstatusAPI = r0, systeminfoAPI = r1, hoststatusAPI = r2,
        servicestatusAPI = r3\<rparr> ch"
proof
  show "fetch (withStatusCode c r) = fetch r"
    by (rule fetch_withStatusCode)
  show "Collect_Exporter
       \<lparr>systemstatusAPI = withStatusCode c0 r0, systeminfoAPI = withStatusCode c1 r1,
        hoststatusAPI = withStatusCode c2 r2, servicestatusAPI = withStatusCode c3 r3\<rparr> ch =
     Collect_Exporter
       \<lparr>systemstatusAPI = r0, systeminfoAPI = r1, hoststatusAPI = r2,
        servicestatusAPI = r3\<rparr> ch"
    by (rule Collect_fetch_cong) (simp_all add: fetch_withStatusCode)
qed

text \<open>
  Claim C6: the host and the service aggregation are functions of the record list alone
  (every call starts from counters that are all zero) and do not depend on the order of
  the records: two lists that are permutations of each other, that is, have the same
  multiset of records, give the same counters.
\<close>

theorem C6_order_independent:
  assumes "mset hs = mset hs'" and "mset ss = mset ss'"
  shows "hostsLoop hs = hostsLoop hs' \<and> servicesLoop ss = servicesLoop ss'"
proof
  show "hostsLoop hs = hostsLoop hs'"
    unfolding hostsLoop_closed
    by (simp only: length_filter_mset [OF assms(1)] mset_eq_length [OF assms(1)])
  show "servicesLoop ss = servicesLoop ss'"
    unfolding servicesLoop_closed
    by (simp only: length_filter_mset [OF assms(2)] mset_eq_length [OF assms(2)])
qed

text \<open>
  Claim C6 at an instance: two hosts and two services, each list in both orders.
\<close>

theorem C6_order_independent_witness:
  "mset [\<lparr>HostObjectID = 1, Hoststatus_elem.CheckType = 0, Hoststatus_elem.CurrentState = 0,
          Hoststatus_elem.IsFlapping = 1, Hoststatus_elem.ScheduledDowntimeDepth = 0\<rparr>,
         \<lparr>HostObjectID = 2, Hoststatus_elem.CheckType = 1, Hoststatus_elem.CurrentState = 2,
          Hoststatus_elem.IsFlapping = 0, Hoststatus_elem.ScheduledDowntimeDepth = 1\<rparr>] =
   mset [\<lparr>HostObjectID = 2, Hoststatus_elem.CheckType = 1, Hoststatus_elem.CurrentState = 2,
          Hoststatus_elem.IsFlapping = 0, Hoststatus_elem.ScheduledDowntimeDepth = 1\<rparr>,
         \<lparr>HostObjectID = 1, Hoststatus_elem.CheckType = 0, Hoststatus_elem.CurrentState = 0,
          Hoststatus_elem.IsFlapping = 1, Hoststatus_elem.ScheduledDowntimeDepth = 0\<rparr>]
   \<and> mset [\<lparr>HasBeenChecked = 1, ShouldBeScheduled = 1, CheckType = 0, CurrentState = 3,
          IsFlapping = 0, ScheduledDowntimeDepth = 0\<rparr>,
         \<lparr>HasBeenChecked = 0, ShouldBeScheduled = 1, CheckType = 1, CurrentState = 1,
          IsFlapping = 1, ScheduledDowntimeDepth = 1\<rparr>] =
   mset [\<lparr>HasBeenChecked = 0, ShouldBeScheduled = 1, CheckType = 1, CurrentState = 1,
          IsFlapping = 1, ScheduledDowntimeDepth = 1\<rparr>,
         \<lparr>HasBeenChecked = 1, ShouldBeScheduled = 1, CheckType = 0, CurrentState = 3,
          IsFlapping = 0, ScheduledDowntimeDepth = 0\<rparr>]
   \<and> hostsLoop
        [\<lparr>HostObjectID = 1, Hoststatus_elem.CheckType = 0, Hoststatus_elem.CurrentState = 0,
          Hoststatus_elem.IsFlapping = 1, Hoststatus_elem.ScheduledDowntimeDepth = 0\<rparr>,
         \<lparr>HostObjectID = 2, Hoststatus_elem.CheckType = 1, Hoststatus_elem.CurrentState = 2,
          Hoststatus_elem.IsFlapping = 0, Hoststatus_elem.ScheduledDowntimeDepth = 1\<rparr>] =
       hostsLoop
        [\<lparr>HostObjectID = 2, Hoststatus_elem.CheckType = 1, Hoststatus_elem.CurrentState = 2,
          Hoststatus_elem.IsFlapping = 0, Hoststatus_elem.ScheduledDowntimeDepth = 1\<rparr>,
         \<lparr>HostObjectID = 1, Hoststatus_elem.CheckType = 0, Hoststatus_elem.CurrentState = 0,
          Hoststatus_elem.IsFlapping = 1, Hoststatus_elem.ScheduledDowntimeDepth = 0\<rparr>]
   \<and> servicesLoop
        [\<lparr>HasBeenChecked = 1, ShouldBeScheduled = 1, CheckType = 0, CurrentState = 3,
          IsFlapping = 0, ScheduledDowntimeDepth = 0\<rparr>,
         \<lparr>HasBeenChecked = 0, ShouldBeScheduled = 1, CheckType = 1, CurrentState = 1,
          IsFlapping = 1, ScheduledDowntimeDepth = 1\<rparr>] =
       servicesLoop
        [\<lparr>HasBeenChecked = 0, ShouldBeScheduled = 1, CheckType = 1, CurrentState = 1,
          IsFlapping = 1, ScheduledDowntimeDepth = 1\<rparr>,
         \<lparr>HasBeenChecked = 1, ShouldBeScheduled = 1, CheckType = 0, CurrentState = 3,
          IsFlapping = 0, ScheduledDowntimeDepth = 0\<rparr>]"
proof -
  let ?h1 = "\<lparr>HostObjectID = 1, Hoststatus_elem.CheckType = 0, Hoststatus_elem.CurrentState = 0,
          Hoststatus_elem.IsFlapping = 1, Hoststatus_elem.ScheduledDowntimeDepth = 0\<rparr>"
  let ?h2 = "\<lparr>HostObjectID = 2, Hoststatus_elem.CheckType = 1, Hoststatus_elem.CurrentState = 2,
          Hoststatus_elem.IsFlapping = 0, Hoststatus_elem.ScheduledDowntimeDepth = 1\<rparr>"
  let ?s1 = "\<lparr>HasBeenChecked = 1, ShouldBeScheduled = 1, CheckType = 0, CurrentState = 3,
          IsFlapping = 0, ScheduledDowntimeDepth = 0\<rparr>"
  let ?s2 = "\<lparr>HasBeenChecked = 0, ShouldBeScheduled = 1, CheckType = 1, CurrentState = 1,
          IsFlapping = 1, ScheduledDowntimeDepth = 1\<rparr>"
  have hs: "mset [?h1, ?h2] = mset [?h2, ?h1]" by (simp add: add_mset_commute)
  have ss: "mset [?s1, ?s2] = mset [?s2, ?s1]" by (simp add: add_mset_commute)
  show ?thesis
    by (rule conjI [OF hs conjI [OF ss C6_order_independent [OF hs ss]]])
qed

text \<open>
  Claim C7: one pass of the loop body over a host or a service record adds one to the
  flapping counter exactly when \<^verbatim>\<open>is_flapping\<close> is 1 and one to the downtime counter
  exactly when \<^verbatim>\<open>scheduled_downtime_depth\<close> is 1; for any other value of the field (a
  fraction, the zero of a missing field, a depth of 2 or more) the counter keeps its value.
  Over a whole list each of the four counters is therefore the number of records in which
  the field is 1.
\<close>

theorem C7_flapping_downtime:
  "hostsFlapCount (hostsBody v c) =
     hostsFlapCount c + (if Hoststatus_elem.IsFlapping v = 1 then 1 else 0)
   \<and> hostsDowntimeCount (hostsBody v c) =
     hostsDowntimeCount c + (if Hoststatus_elem.ScheduledDowntimeDepth v = 1 then 1 else 0)
   \<and> servicesFlapCount (servicesBody w d) =
     servicesFlapCount d + (if Servicestatus_elem.IsFlapping w = 1 then 1 else 0)
   \<and> servicesDowntimeCount (servicesBody w d) =
     servicesDowntimeCount d +
     (if Servicestatus_elem.ScheduledDowntimeDepth w = 1 then 1 else 0)
   \<and> hostsFlapCount (hostsLoop vs) =
     length (filter (\<lambda>v. Hoststatus_elem.IsFlapping v = 1) vs)
   \<and> hostsDowntimeCount (hostsLoop vs) =
     length (filter (\<lambda>v. Hoststatus_elem.ScheduledDowntimeDepth v = 1) vs)
   \<and> servicesFlapCount (servicesLoop ws) =
     length (filter (\<lambda>v. Servicestatus_elem.IsFlapping v = 1) ws)
   \<and> servicesDowntimeCount (servicesLoop ws) =
     length (filter (\<lambda>v. Servicestatus_elem.ScheduledDowntimeDepth v = 1) ws)"
  by (simp add: hostsBody_sel servicesBody_sel hostsLoop_closed servicesLoop_closed)

text \<open>
  Claim C9: when the payloads decode, the gauges \<^verbatim>\<open>hosts_total\<close> and \<^verbatim>\<open>services_total\<close>
  are sent with the conversion of the payload's \<^verbatim>\<open>recordcount\<close>, not with the number of
  records in the list. The check-type counters add up to the length of the list whatever
  \<^verbatim>\<open>recordcount\<close> says, and the scrape returns whatever it says: the two are never
  compared. With a \<^verbatim>\<open>recordcount\<close> of 5 and a list of one host the total sent is 5 while
  the active and passive counters add up to 1.
\<close>

theorem C9_totals_are_recordcount:
  "valuesOf hostsTotal
     (sent (Collect_Exporter
       \<lparr>systemstatusAPI = Response c0 (Json st), systeminfoAPI = Response c1 (Json info),
        hoststatusAPI = Response c2 (Json h), servicestatusAPI = Response c3 (Json s)\<rparr> [])) =
     [F64_of_int (sint (hostStatus.Recordcount h))]
   \<and> valuesOf servicesTotal
     (sent (Collect_Exporter
       \<lparr>systemstatusAPI = Response c0 (Json st), systeminfoAPI = Response c1 (Json info),
        hoststatusAPI = Response c2 (Json h), servicestatusAPI = Response c3 (Json s)\<rparr> [])) =
     [F64_of_int (sint (serviceStatus.Recordcount s))]
   \<and> valuesOf hostsActivelyCheckedTotal
     (sent (Collect_Exporter
       \<lparr>systemstatusAPI = Response c0 (Json st), systeminfoAPI = Response c1 (Json info),
        hoststatusAPI = Response c2 (Json h), servicestatusAPI = Response c3 (Json s)\<rparr> [])) =
     [F64_of_int (int (hostsActiveCheckCount (hostsLoop (Hoststatus h))))]
   \<and> valuesOf hostsPassivelyCheckedTotal
     (sent (Collect_Exporter
       \<lparr>systemstatusAPI = Response c0 (Json st), systeminfoAPI = Response c1 (Json info),
        hoststatusAPI = Response c2 (Json h), servicestatusAPI = Response c3 (Json s)\<rparr> [])) =
     [F64_of_int (int (hostsPassiveCheckCount (hostsLoop (Hoststatus h))))]
   \<and> hostsActiveCheckCount (hostsLoop (Hoststatus h)) +
       hostsPassiveCheckCount (hostsLoop (Hoststatus h)) = length (Hoststatus h)
   \<and> servicesActiveCheckCount (servicesLoop (Servicestatus s)) +
       servicesPassiveCheckCount (servicesLoop (Servicestatus s)) = length (Servicestatus s)
   \<and> (\<exists>out. Collect_Exporter
       \<lparr>systemstatusAPI = Response c0 (Json st), systeminfoAPI = Response c1 (Json info),
        hoststatusAPI = Response c2 (Json h), servicestatusAPI = Response c3 (Json s)\<rparr> [] =
       Return out)
   \<and> valuesOf hostsTotal
     (sent (Collect_Exporter
       \<lparr>systemstatusAPI = Response 200 (Json \<lparr>Running = 1\<rparr>),
        systeminfoAPI = Response 200 (Json \<lparr>Version = ''5.8.10''\<rparr>),
        hoststatusAPI = Response 200 (Json
          \<lparr>hostStatus.Recordcount = 5,
           Hoststatus =
             [\<lparr>HostObjectID = 1, Hoststatus_elem.CheckType = 0,
               Hoststatus_elem.CurrentState = 0, Hoststatus_elem.IsFlapping = 0,
               Hoststatus_elem.ScheduledDowntimeDepth = 0\<rparr>]\<rparr>),
        servicestatusAPI = Response 200 (Json
          \<lparr>serviceStatus.Recordcount = 0, Servicestatus = []\<rparr>)\<rparr> [])) =
     [F64_of_int 5]
   \<and> hostsActiveCheckCount (hostsLoop
         [\<lparr>HostObjectID = 1, Hoststatus_elem.CheckType = 0,
           Hoststatus_elem.CurrentState = 0, Hoststatus_elem.IsFlapping = 0,
           Hoststatus_elem.ScheduledDowntimeDepth = 0\<rparr>]) +
       hostsPassiveCheckCount (hostsLoop
         [\<lparr>HostObjectID = 1, Hoststatus_elem.CheckType = 0,
           Hoststatus_elem.CurrentState = 0, Hoststatus_elem.IsFlapping = 0,
           Hoststatus_elem.ScheduledDowntimeDepth = 0\<rparr>]) = 1"
proof -
  have hosts: "hostsActiveCheckCount (hostsLoop vs) + hostsPassiveCheckCount (hostsLoop vs) =
      length vs" for vs
    by (simp add: hostsLoop_closed sum_length_filter_compl)
  have services: "servicesActiveCheckCount (servicesLoop ws) +
      servicesPassiveCheckCount (servicesLoop ws) = length ws" for ws
    by (simp add: servicesLoop_closed sum_length_filter_compl)
  show ?thesis
    by (simp add: Collect_decoded hosts services)
qed

text \<open>
  Claim C10: when the body of the system-status response decodes, \<^verbatim>\<open>Collect\<close> sends
  \<^verbatim>\<open>up\<close> with the decoded \<^verbatim>\<open>is_currently_running\<close> as it is and goes on with
  \<^verbatim>\<open>HitNagiosRestApisAndUpdateMetrics\<close>, whatever that value; the rest of the scrape is
  that of a backend \<open>b\<close> in which the value does not occur. In particular a backend that
  reports 0 and whose other three payloads decode gets \<^verbatim>\<open>up\<close> = 0 followed by the
  version, host and service gauges: all nineteen metrics.
\<close>

theorem C10_up_is_raw_and_scrape_proceeds:
  "Collect_Exporter (b\<lparr>systemstatusAPI := Response c (Json st)\<rparr>) ch =
     HitNagiosRestApisAndUpdateMetrics b
       (send (MustNewConstMetric up (F64 (Running st)) []) ch)
   \<and> Collect_Exporter
     \<lparr>systemstatusAPI = Response c0 (Json \<lparr>Running = 0\<rparr>),
      systeminfoAPI = Response c1 (Json info),
      hoststatusAPI = Response c2 (Json h), servicestatusAPI = Response c3 (Json s)\<rparr> [] =
   Return
     [MustNewConstMetric up (F64 0) [],
      MustNewConstMetric versionInfo (F64 1) [Version info],
      MustNewConstMetric hostsTotal (F64_of_int (sint (hostStatus.Recordcount h))) [],
      MustNewConstMetric hostsActivelyCheckedTotal
        (F64_of_int (int (hostsActiveCheckCount (hostsLoop (Hoststatus h))))) [],
      MustNewConstMetric hostsPassivelyCheckedTotal
        (F64_of_int (int (hostsPassiveCheckCount (hostsLoop (Hoststatus h))))) [],
      MustNewConstMetric hostsUp
        (F64_of_int (int (hostsUpCount (hostsLoop (Hoststatus h))))) [],
      MustNewConstMetric hostsDown
        (F64_of_int (int (hostsDownCount (hostsLoop (Hoststatus h))))) [],
      MustNewConstMetric hostsUnreachable
        (F64_of_int (int (hostsUnreachableCount (hostsLoop (Hoststatus h))))) [],
      MustNewConstMetric hostsFlapping
        (F64_of_int (int (hostsFlapCount (hostsLoop (Hoststatus h))))) [],
      MustNewConstMetric hostsDowntime
        (F64_of_int (int (hostsDowntimeCount (hostsLoop (Hoststatus h))))) [],
      MustNewConstMetric servicesTotal (F64_of_int (sint (serviceStatus.Recordcount s))) [],
      MustNewConstMetric servicesActivelyCheckedTotal
        (F64_of_int (int (servicesActiveCheckCount (servicesLoop (Servicestatus s))))) [],
      MustNewConstMetric servicesPassivelyCheckedTotal
        (F64_of_int (int (hostsPassiveCheckCount (hostsLoop (Hoststatus h))))) [],
      MustNewConstMetric servicesOk
        (F64_of_int (int (servicesOkCount (servicesLoop (Servicestatus s))))) [],
      MustNewConstMetric servicesWarn
        (F64_of_int (int (servicesWarnCount (servicesLoop (Servicestatus s))))) [],
      MustNewConstMetric servicesCritical
        (F64_of_int (int (servicesWarnCount (servicesLoop (Servicestatus s))))) [],
      MustNewConstMetric servicesUnknown
        (F64_of_int (int (servicesUnknownCount (servicesLoop (Servicestatus s))))) [],
      MustNewConstMetric servicesFlapping
        (F64_of_int (int (servicesFlapCount (servicesLoop (Servicestatus s))))) [],
      MustNewConstMetric servicesDowntime
        (F64_of_int (int (servicesDowntimeCount (servicesLoop (Servicestatus s))))) []]"
proof
  have "Collect_Exporter (b\<lparr>systemstatusAPI := Response c (Json st)\<rparr>) ch =
      HitNagiosRestApisAndUpdateMetrics (b\<lparr>systemstatusAPI := Response c (Json st)\<rparr>)
        (send (MustNewConstMetric up (F64 (Running st)) []) ch)"
    by (rule Collect_status_decoded) (simp add: fetch_simps)
  then show "Collect_Exporter (b\<lparr>systemstatusAPI := Response c (Json st)\<rparr>) ch =
     HitNagiosRestApisAndUpdateMetrics b
       (send (MustNewConstMetric up (F64 (Running st)) []) ch)"
    by (simp only: Hit_ignores_status)
qed (simp add: Collect_decoded)

end
